theory Spec2Isabelle
  imports Complex_Main
begin

section \<open>Data model (src/types.ts)\<close>

text \<open>
  JavaScript numbers are modelled as real numbers: every comparison and every arithmetic
  step of the source is kept, evaluated without rounding.
\<close>

datatype AppMode = TREE | SCATTER | FOCUS

datatype ParticleType = DECORATION | DUST | PHOTO

text \<open>\<^verbatim>\<open>THREE.Vector3\<close>: the three coordinates \<^verbatim>\<open>x\<close>, \<^verbatim>\<open>y\<close>, \<^verbatim>\<open>z\<close>.\<close>

record Vector3 =
  vx :: real
  vy :: real
  vz :: real

type_synonym Texture = string

text \<open>
  The geometry and material \<^verbatim>\<open>addParticle\<close> gives a mesh: a photo frame carrying its
  texture, a dust cube, or one of the decorations.
\<close>

datatype Shape = PhotoFrame Texture | DustCube | GoldBox | GreenBox | RedSphere | CandyCane

text \<open>
  \<^verbatim>\<open>THREE.Mesh\<close>, as far as the particle logic reads it: an identity (the source compares
  meshes by reference, \<^verbatim>\<open>p.mesh === focusTarget\<close>), its shape and its position when the
  particle record is pushed.
\<close>

record Mesh =
  mesh_id :: nat
  shape :: Shape
  position :: Vector3

record ParticleData =
  mesh :: Mesh
  velocity :: Vector3
  ptype :: ParticleType
  initialPos :: Vector3

section \<open>Vector operations used by the source\<close>

text \<open>
  The methods of \<^verbatim>\<open>THREE.Vector3\<close> that \<^verbatim>\<open>Experience.tsx\<close> calls. The class belongs to the
  three.js library, which the application imports; the definitions follow the
  library's \<^verbatim>\<open>math/Vector3.js\<close>:
  \<^verbatim>\<open>length() { return Math.sqrt(x*x + y*y + z*z) }\<close>,
  \<^verbatim>\<open>distanceTo(v) { return Math.sqrt(dx*dx + dy*dy + dz*dz) }\<close>,
  \<^verbatim>\<open>multiplyScalar(s)\<close>, \<^verbatim>\<open>divideScalar(s) { return this.multiplyScalar(1 / s) }\<close>,
  \<^verbatim>\<open>normalize() { return this.divideScalar(this.length() || 1) }\<close>,
  \<^verbatim>\<open>setLength(l) { return this.normalize().multiplyScalar(l) }\<close>,
  \<^verbatim>\<open>addScaledVector(v, s)\<close> adding \<^verbatim>\<open>v * s\<close> coordinate by coordinate.
\<close>

definition zero3 :: Vector3 where
  "zero3 = \<lparr>vx = 0, vy = 0, vz = 0\<rparr>"

definition vlength :: "Vector3 \<Rightarrow> real" where
  "vlength v = sqrt (vx v * vx v + vy v * vy v + vz v * vz v)"

definition distanceTo :: "Vector3 \<Rightarrow> Vector3 \<Rightarrow> real" where
  "distanceTo a b =
     (let dx = vx a - vx b; dy = vy a - vy b; dz = vz a - vz b
      in sqrt (dx * dx + dy * dy + dz * dz))"

definition multiplyScalar :: "Vector3 \<Rightarrow> real \<Rightarrow> Vector3" where
  "multiplyScalar v s = \<lparr>vx = vx v * s, vy = vy v * s, vz = vz v * s\<rparr>"

definition divideScalar :: "Vector3 \<Rightarrow> real \<Rightarrow> Vector3" where
  "divideScalar v s = multiplyScalar v (1 / s)"

text \<open>The divisor of \<^verbatim>\<open>normalize\<close>: \<^verbatim>\<open>this.length() || 1\<close>, which is 1 for a zero length.\<close>

definition normalize_divisor :: "Vector3 \<Rightarrow> real" where
  "normalize_divisor v = (if vlength v = 0 then 1 else vlength v)"

definition normalize :: "Vector3 \<Rightarrow> Vector3" where
  "normalize v = divideScalar v (normalize_divisor v)"

definition setLength :: "Vector3 \<Rightarrow> real \<Rightarrow> Vector3" where
  "setLength v l = multiplyScalar (normalize v) l"

definition addScaledVector :: "Vector3 \<Rightarrow> Vector3 \<Rightarrow> real \<Rightarrow> Vector3" where
  "addScaledVector a v s =
     \<lparr>vx = vx a + vx v * s, vy = vy a + vy v * s, vz = vz a + vz v * s\<rparr>"

section \<open>Gesture classification and mode changes (animate, Experience.tsx 287-326)\<close>

datatype error = TypeError | Error string

text \<open>
  The guard every gesture branch has: \<^verbatim>\<open>if (currentMode !== X) setMode(X)\<close>. The result is
  the list of \<^verbatim>\<open>setMode\<close> calls made, none or one.
\<close>

definition signal :: "AppMode \<Rightarrow> AppMode \<Rightarrow> AppMode list" where
  "signal currentMode s = (if currentMode \<noteq> s then [s] else [])"

text \<open>
  \<^verbatim>\<open>setMode\<close> is the setter of the React state \<^verbatim>\<open>mode\<close> of \<^verbatim>\<open>App\<close>: after the calls of one
  frame the state holds the argument of the last call, and is unchanged without a call.
  \<^verbatim>\<open>modeRef.current\<close> is set to this state before the next frame reads it.
\<close>

definition setMode :: "AppMode \<Rightarrow> AppMode list \<Rightarrow> AppMode" where
  "setMode m calls = foldl (\<lambda>_ s. s) m calls"

definition pinch :: "Vector3 list \<Rightarrow> bool" where
  "pinch lm = (let thumb = lm ! 4; index = lm ! 8 in distanceTo thumb index < 0.05)"

definition avgDist :: "Vector3 list \<Rightarrow> real" where
  "avgDist lm =
     (let wrist = lm ! 0;
          tips = map (\<lambda>i. lm ! i) [12, 16, 20]
      in foldl (\<lambda>acc t. acc + distanceTo t wrist) 0 tips / real (length tips))"

text \<open>
  The gesture block for one hand \<^verbatim>\<open>lm\<close>: the pinch test, then (not as an alternative of
  it) the fist test with the open-hand test as its \<^verbatim>\<open>else if\<close>. The result is the
  \<^verbatim>\<open>setMode\<close> calls in the order they are made; \<^verbatim>\<open>currentMode\<close> is the value read once at
  the start of the frame.
\<close>

definition gestures :: "AppMode \<Rightarrow> Vector3 list \<Rightarrow> AppMode list" where
  "gestures currentMode lm =
     (if pinch lm then signal currentMode FOCUS else []) @
     (if avgDist lm < 0.25 then signal currentMode TREE
      else if avgDist lm > 0.4 then signal currentMode SCATTER
      else [])"

text \<open>
  The detection step of a frame. \<^verbatim>\<open>ready\<close> stands for the outer guard (landmarker and video
  present, video playing); \<^verbatim>\<open>landmarks\<close> is \<^verbatim>\<open>result.landmarks\<close>, one point list per hand.
  The block reads the points 0, 4, 8, 9, 12, 16 and 20 of the first hand before any
  \<^verbatim>\<open>setMode\<close> call; reading a coordinate of a missing point throws.
\<close>

definition detect :: "bool \<Rightarrow> AppMode \<Rightarrow> Vector3 list list \<Rightarrow> error + AppMode list" where
  "detect ready currentMode landmarks =
     (if ready \<and> length landmarks > 0 then
        (let lm = landmarks ! 0
         in if length lm < 21 then Inl TypeError else Inr (gestures currentMode lm))
      else Inr [])"

text \<open>
  The mode after the detection step of a frame: the React state after the calls the step
  made, or the error that ended the frame.
\<close>

definition frame_mode :: "bool \<Rightarrow> AppMode \<Rightarrow> Vector3 list list \<Rightarrow> error + AppMode" where
  "frame_mode ready currentMode landmarks =
     (case detect ready currentMode landmarks of
        Inl e \<Rightarrow> Inl e
      | Inr calls \<Rightarrow> Inr (setMode currentMode calls))"

text \<open>
  A hand for examples: every point at the origin, except the index tip (point 8) at
  distance \<open>a\<close> from the thumb tip and the three finger tips 12, 16, 20 at distance \<open>d\<close>
  from the wrist.
\<close>

definition sample_hand :: "real \<Rightarrow> real \<Rightarrow> Vector3 list" where
  "sample_hand a d =
     (replicate 21 zero3)
       [8 := \<lparr>vx = a, vy = 0, vz = 0\<rparr>,
        12 := \<lparr>vx = d, vy = 0, vz = 0\<rparr>,
        16 := \<lparr>vx = d, vy = 0, vz = 0\<rparr>,
        20 := \<lparr>vx = d, vy = 0, vz = 0\<rparr>]"

section \<open>Particle store (Experience.tsx 148-191, 213-239)\<close>

text \<open>
  The state the particle code works on: \<^verbatim>\<open>particlesRef.current\<close>, the children of
  \<^verbatim>\<open>mainGroup\<close> (mesh identities) and the number of \<^verbatim>\<open>Math.random()\<close> draws made so far.
  The random source is a parameter \<open>rnd\<close>: draw number \<open>k\<close> returns \<open>rnd k\<close>.
\<close>

record scene =
  particles :: "ParticleData list"
  mainGroup :: "nat list"
  draws :: nat

definition empty_scene :: scene where
  "empty_scene = \<lparr>particles = [], mainGroup = [], draws = 0\<rparr>"

text \<open>
  \<^verbatim>\<open>addParticle(type, texture?)\<close>. The mesh is a photo frame only for type PHOTO with a
  texture; a DUST particle is a dust cube; everything else draws a decoration. Then the
  mesh joins the group, gets a random position, and the record is pushed with a random
  velocity and \<^verbatim>\<open>initialPos = mesh.position.clone()\<close>.
\<close>

definition addParticle :: "(nat \<Rightarrow> real) \<Rightarrow> ParticleType \<Rightarrow> Texture option \<Rightarrow> scene \<Rightarrow> scene" where
  "addParticle rnd ty texture s =
     (let k = draws s;
          (sh, k1) =
            (if ty = PHOTO \<and> texture \<noteq> None then (PhotoFrame (the texture), k)
             else if ty = DUST then (DustCube, k)
             else
               (let rand = rnd k
                in if rand < 0.3 then (if rnd (k + 1) > 0.5 then GoldBox else GreenBox, k + 2)
                   else if rand < 0.6 then (RedSphere, k + 1)
                   else (CandyCane, k + 1)));
          pos = \<lparr>vx = (rnd k1 - 0.5) * 50,
                 vy = (rnd (k1 + 1) - 0.5) * 50,
                 vz = (rnd (k1 + 2) - 0.5) * 50\<rparr>;
          m = \<lparr>mesh_id = length (mainGroup s), shape = sh, position = pos\<rparr>;
          vel = multiplyScalar
                  \<lparr>vx = rnd (k1 + 3) - 0.5, vy = rnd (k1 + 4) - 0.5, vz = rnd (k1 + 5) - 0.5\<rparr>
                  0.05
      in s\<lparr>particles := particles s @
               [\<lparr>mesh = m, velocity = vel, ptype = ty, initialPos = position m\<rparr>],
           mainGroup := mainGroup s @ [mesh_id m],
           draws := k1 + 6\<rparr>)"

text \<open>A counting loop \<^verbatim>\<open>for (let i = 0; i < n; i++) body\<close> whose body does not read \<^verbatim>\<open>i\<close>.\<close>

fun repeat :: "nat \<Rightarrow> ('s \<Rightarrow> 's) \<Rightarrow> 's \<Rightarrow> 's" where
  "repeat 0 body s = s"
| "repeat (Suc n) body s = repeat n body (body s)"

definition initialPhotoTex :: Texture where
  "initialPhotoTex = ''JOYEUX NOEL''"

text \<open>The block "Create Particles" of the first effect.\<close>

definition createParticles :: "(nat \<Rightarrow> real) \<Rightarrow> scene \<Rightarrow> scene" where
  "createParticles rnd s =
     addParticle rnd PHOTO (Some initialPhotoTex)
       (repeat 2500 (addParticle rnd DUST None)
          (repeat 1500 (addParticle rnd DECORATION None) s))"

text \<open>
  The first effect runs once, on the empty store; it returns at once when the container
  element is missing (\<^verbatim>\<open>if (!containerRef.current) return\<close>).
\<close>

definition initThree :: "bool \<Rightarrow> (nat \<Rightarrow> real) \<Rightarrow> scene" where
  "initThree container rnd = (if \<not> container then empty_scene else createParticles rnd empty_scene)"

text \<open>
  The callback of the second effect, run when the texture \<open>t\<close> of a new photo has loaded.
  The mesh is a fresh \<^verbatim>\<open>THREE.Mesh\<close>, whose position the callback never sets: it is the
  constructor's \<open>(0, 0, 0)\<close>, and \<^verbatim>\<open>initialPos\<close> is its clone.
\<close>

definition onTextureLoaded :: "(nat \<Rightarrow> real) \<Rightarrow> Texture \<Rightarrow> scene \<Rightarrow> scene" where
  "onTextureLoaded rnd t s =
     (let k = draws s;
          m = \<lparr>mesh_id = length (mainGroup s), shape = PhotoFrame t, position = zero3\<rparr>;
          vel = multiplyScalar
                  \<lparr>vx = rnd k - 0.5, vy = rnd (k + 1) - 0.5, vz = rnd (k + 2) - 0.5\<rparr>
                  0.05
      in s\<lparr>particles := particles s @
               [\<lparr>mesh = m, velocity = vel, ptype = PHOTO, initialPos = position m\<rparr>],
           mainGroup := mainGroup s @ [mesh_id m],
           draws := k + 3\<rparr>)"

text \<open>
  The second effect: with a non-empty \<^verbatim>\<open>newPhoto\<close> URL (and the group built by the first
  effect) the texture is requested; \<open>load\<close> gives the texture when loading succeeds, and
  the callback runs only then.
\<close>

definition handleNewPhoto ::
  "(nat \<Rightarrow> real) \<Rightarrow> (string \<Rightarrow> Texture option) \<Rightarrow> string option \<Rightarrow> scene \<Rightarrow> scene" where
  "handleNewPhoto rnd load newPhoto s =
     (case newPhoto of
        None \<Rightarrow> s
      | Some url \<Rightarrow>
          if url = [] then s
          else (case load url of None \<Rightarrow> s | Some t \<Rightarrow> onTextureLoaded rnd t s))"

section \<open>Focus target and target positions (animate, Experience.tsx 328-379)\<close>

text \<open>
  The focus target is a mesh reference or null. \<open>r\<close> is the value \<^verbatim>\<open>Math.random()\<close> returns
  when it is called; an index outside \<^verbatim>\<open>photos\<close> reads \<^verbatim>\<open>undefined.mesh\<close>, which throws.
\<close>

definition select_focus ::
  "AppMode \<Rightarrow> nat option \<Rightarrow> ParticleData list \<Rightarrow> real \<Rightarrow> error + nat option" where
  "select_focus currentMode focusTarget ps r =
     (let chosen =
        (if currentMode = FOCUS \<and> focusTarget = None then
           (let photos = filter (\<lambda>p. ptype p = PHOTO) ps
            in if length photos > 0 then
                 (let j = \<lfloor>r * real (length photos)\<rfloor>
                  in if 0 \<le> j \<and> j < int (length photos)
                     then Inr (Some (mesh_id (mesh (photos ! nat j))))
                     else Inl TypeError)
               else Inr focusTarget)
         else Inr focusTarget)
      in case chosen of
           Inl e \<Rightarrow> Inl e
         | Inr ft \<Rightarrow> if currentMode \<noteq> FOCUS then Inr None else Inr ft)"

text \<open>TREE: the spiral cone. \<open>i\<close> is the particle's index, \<open>particleCount\<close> the store's length.\<close>

definition tree_radius :: "nat \<Rightarrow> nat \<Rightarrow> real" where
  "tree_radius i particleCount =
     (let t = real i / real particleCount; maxRadius = 15 in maxRadius * (1 - t))"

definition tree_target :: "nat \<Rightarrow> nat \<Rightarrow> Vector3" where
  "tree_target i particleCount =
     (let t = real i / real particleCount;
          angle = t * 50 * pi;
          height = (t - 0.5) * 40;
          radius = tree_radius i particleCount
      in \<lparr>vx = cos angle * radius, vy = height, vz = sin angle * radius\<rparr>)"

text \<open>
  The distance of a point from the vertical axis of the cone, the measure in which the
  taper of the TREE layout is stated.
\<close>

definition horizontal_radius :: "Vector3 \<Rightarrow> real" where
  "horizontal_radius v = sqrt (vx v * vx v + vz v * vz v)"

text \<open>SCATTER: the drift around \<^verbatim>\<open>initialPos\<close>, before and after the two clamping steps.\<close>

definition scatter_drift :: "ParticleData \<Rightarrow> real \<Rightarrow> Vector3" where
  "scatter_drift p time = addScaledVector (initialPos p) (velocity p) (sin (time * 0.001) * 20)"

definition clamp_shell :: "Vector3 \<Rightarrow> Vector3" where
  "clamp_shell v =
     (let v1 = (if vlength v < 8 then setLength v 8 else v)
      in if vlength v1 > 20 then setLength v1 20 else v1)"

definition scatter_target :: "ParticleData \<Rightarrow> real \<Rightarrow> Vector3" where
  "scatter_target p time = clamp_shell (scatter_drift p time)"

text \<open>FOCUS: the focused mesh goes in front of the camera, the others spread out.\<close>

definition focus_target :: "ParticleData \<Rightarrow> nat option \<Rightarrow> Vector3" where
  "focus_target p focusTarget =
     (if Some (mesh_id (mesh p)) = focusTarget then \<lparr>vx = 0, vy = 0, vz = 35\<rparr>
      else multiplyScalar (initialPos p) 1.5)"

definition targetPos ::
  "AppMode \<Rightarrow> nat option \<Rightarrow> real \<Rightarrow> nat \<Rightarrow> nat \<Rightarrow> ParticleData \<Rightarrow> Vector3" where
  "targetPos currentMode focusTarget time particleCount i p =
     (case currentMode of
        TREE \<Rightarrow> tree_target i particleCount
      | SCATTER \<Rightarrow> scatter_target p time
      | FOCUS \<Rightarrow> focus_target p focusTarget)"

section \<open>Image generation (services/geminiService.ts)\<close>

datatype ImageSize = Size1K | Size2K | Size4K

text \<open>The response of \<^verbatim>\<open>ai.models.generateContent\<close>, every optional field as an option.\<close>

record Blob =
  blob_data :: "string option"
  mimeType :: "string option"

record Part =
  inlineData :: "Blob option"
  part_text :: "string option"

record Content =
  parts :: "Part list option"

record Candidate =
  content :: "Content option"

record GenerateContentResponse =
  candidates :: "Candidate list option"

text \<open>\<^verbatim>\<open>response.candidates?.[0]?.content?.parts || []\<close>\<close>

definition response_parts :: "GenerateContentResponse \<Rightarrow> Part list" where
  "response_parts response =
     (case candidates response of
        None \<Rightarrow> []
      | Some cs \<Rightarrow>
          (case cs of
             [] \<Rightarrow> []
           | c # _ \<Rightarrow>
               (case content c of
                  None \<Rightarrow> []
                | Some ct \<Rightarrow> (case parts ct of None \<Rightarrow> [] | Some ps \<Rightarrow> ps))))"

text \<open>The template string; an absent \<^verbatim>\<open>data\<close> field prints as \<^verbatim>\<open>undefined\<close>.\<close>

definition data_url :: "Blob \<Rightarrow> string" where
  "data_url b =
     ''data:image/png;base64,'' @ (case blob_data b of None \<Rightarrow> ''undefined'' | Some d \<Rightarrow> d)"

text \<open>The \<^verbatim>\<open>for\<close> loop over the parts: it returns at the first part with \<^verbatim>\<open>inlineData\<close>.\<close>

fun first_image :: "Part list \<Rightarrow> string option" where
  "first_image [] = None"
| "first_image (part # rest) =
     (case inlineData part of Some b \<Rightarrow> Some (data_url b) | None \<Rightarrow> first_image rest)"

text \<open>
  \<^verbatim>\<open>generateChristmasImage(prompt, size)\<close> (the size is \<open>imageSize\<close> here). \<open>api\<close> is the external call: it rejects with an
  error or resolves with a response. The \<^verbatim>\<open>catch\<close> block logs and rethrows.
\<close>

definition generateChristmasImage ::
  "(string \<Rightarrow> ImageSize \<Rightarrow> error + GenerateContentResponse) \<Rightarrow> string \<Rightarrow> ImageSize \<Rightarrow> error + string"
  where
  "generateChristmasImage api prompt imageSize =
     (case api prompt imageSize of
        Inl e \<Rightarrow> Inl e
      | Inr response \<Rightarrow>
          (case first_image (response_parts response) of
             Some url \<Rightarrow> Inr url
           | None \<Rightarrow> Inl (Error ''No image generated.'')))"

section \<open>Example inputs\<close>

text \<open>A random source whose every draw is 0, and the store after adding one DUST particle
  and one PHOTO particle with it.\<close>

definition zero_source :: "nat \<Rightarrow> real" where
  "zero_source k = 0"

definition two_particles :: scene where
  "two_particles =
     addParticle zero_source PHOTO (Some ''photo'') (addParticle zero_source DUST None empty_scene)"

text \<open>A response whose first candidate holds a text part and then two image parts, and a
  response without candidates.\<close>

definition image_response :: GenerateContentResponse where
  "image_response =
     \<lparr>candidates = Some
        [\<lparr>content = Some \<lparr>parts = Some
            [\<lparr>inlineData = None, part_text = Some ''Here it is''\<rparr>,
             \<lparr>inlineData = Some \<lparr>blob_data = Some ''AAAA'', mimeType = Some ''image/png''\<rparr>,
              part_text = None\<rparr>,
             \<lparr>inlineData = Some \<lparr>blob_data = Some ''BBBB'', mimeType = Some ''image/png''\<rparr>,
              part_text = None\<rparr>]\<rparr>\<rparr>]\<rparr>"

definition empty_response :: GenerateContentResponse where
  "empty_response = \<lparr>candidates = None\<rparr>"

text \<open>A response whose first candidate has no content; a response whose only image part
  is in its second candidate; a response whose part has \<^verbatim>\<open>inlineData\<close> without \<^verbatim>\<open>data\<close>.\<close>

definition no_content_response :: GenerateContentResponse where
  "no_content_response = \<lparr>candidates = Some [\<lparr>content = None\<rparr>]\<rparr>"

definition second_candidate_response :: GenerateContentResponse where
  "second_candidate_response =
     \<lparr>candidates = Some
        [\<lparr>content = Some \<lparr>parts = Some
            [\<lparr>inlineData = None, part_text = Some ''First answer''\<rparr>]\<rparr>\<rparr>,
         \<lparr>content = Some \<lparr>parts = Some
            [\<lparr>inlineData = Some \<lparr>blob_data = Some ''AAAA'', mimeType = Some ''image/png''\<rparr>,
              part_text = None\<rparr>]\<rparr>\<rparr>]\<rparr>"

definition no_data_response :: GenerateContentResponse where
  "no_data_response =
     \<lparr>candidates = Some
        [\<lparr>content = Some \<lparr>parts = Some
            [\<lparr>inlineData = Some \<lparr>blob_data = None, mimeType = Some ''image/png''\<rparr>,
              part_text = None\<rparr>]\<rparr>\<rparr>]\<rparr>"

text \<open>An external call that resolves with the response \<open>r\<close>, and one that rejects with \<open>e\<close>.\<close>

definition resolves_with ::
  "GenerateContentResponse \<Rightarrow> string \<Rightarrow> ImageSize \<Rightarrow> error + GenerateContentResponse" where
  "resolves_with r prompt imageSize = Inr r"

definition rejects_with ::
  "error \<Rightarrow> string \<Rightarrow> ImageSize \<Rightarrow> error + GenerateContentResponse" where
  "rejects_with e prompt imageSize = Inl e"


section \<open>The wording "the response contains an image part"\<close>

text \<open>
  The reading of the specification's words, to compare the source with: the parts of
  all candidates of the response, and among them a part that carries inline image data.
\<close>

definition all_parts :: "GenerateContentResponse \<Rightarrow> Part list" where
  "all_parts response =
     (case candidates response of
        None \<Rightarrow> []
      | Some cs \<Rightarrow>
          concat (map (\<lambda>c. case content c of
                              None \<Rightarrow> []
                            | Some ct \<Rightarrow> (case parts ct of None \<Rightarrow> [] | Some ps \<Rightarrow> ps)) cs))"

definition carries_image_data :: "Part \<Rightarrow> bool" where
  "carries_image_data part =
     (case inlineData part of None \<Rightarrow> False | Some b \<Rightarrow> blob_data b \<noteq> None)"

definition contains_image_part :: "GenerateContentResponse \<Rightarrow> bool" where
  "contains_image_part response = list_ex carries_image_data (all_parts response)"

section \<open>Facts about the vector operations\<close>




lemma vlength_zero3: "vlength zero3 = 0"
  by (simp add: vlength_def zero3_def)


lemma setLength_zero3: "setLength zero3 l = zero3"
  by (simp add: setLength_def normalize_def divideScalar_def multiplyScalar_def zero3_def)

lemma distanceTo_axis:
  "distanceTo \<lparr>vx = a, vy = 0, vz = 0\<rparr> zero3 = \<bar>a\<bar>"
  "distanceTo zero3 \<lparr>vx = a, vy = 0, vz = 0\<rparr> = \<bar>a\<bar>"
  "distanceTo zero3 zero3 = 0"
  by (simp_all add: distanceTo_def zero3_def)

section \<open>Gestures and modes\<close>

lemma length_sample_hand: "length (sample_hand a d) = 21"
  by (simp add: sample_hand_def)

lemma pinch_sample_hand: "pinch (sample_hand a d) = (\<bar>a\<bar> < 0.05)"
  by (simp add: pinch_def sample_hand_def distanceTo_axis)

lemma avgDist_sample_hand: "avgDist (sample_hand a d) = \<bar>d\<bar>"
  by (simp add: avgDist_def sample_hand_def distanceTo_axis)

lemma setMode_signal: "setMode m (signal m s) = s"
  by (simp add: setMode_def signal_def)

text \<open>With a hand of at least 21 points the detection step makes the calls of the gesture
  block; without a hand, or before the video plays, it makes none and the mode stays.\<close>

lemma detect_hand:
  "21 \<le> length lm \<Longrightarrow> detect True currentMode (lm # hands) = Inr (gestures currentMode lm)"
  by (simp add: detect_def)

lemma frame_mode_hand:
  "21 \<le> length lm \<Longrightarrow>
     frame_mode True currentMode (lm # hands) = Inr (setMode currentMode (gestures currentMode lm))"
  by (simp add: frame_mode_def detect_hand)

lemma detect_no_hand:
  "detect ready currentMode [] = Inr []" "detect False currentMode landmarks = Inr []"
  by (simp_all add: detect_def)

lemma frame_mode_no_hand:
  "frame_mode ready currentMode [] = Inr currentMode"
  "frame_mode False currentMode landmarks = Inr currentMode"
  by (simp_all add: frame_mode_def detect_no_hand setMode_def)




text \<open>
  C4. Without a pinch, the fist/open test alone decides the frame: an average distance
  below 0.25 signals TREE (the mode after the frame is TREE), one above 0.4 signals
  SCATTER, and anything from 0.25 to 0.4 makes no \<^verbatim>\<open>setMode\<close> call and leaves the mode as
  it is.
\<close>

theorem fist_open_test:
  assumes "21 \<le> length lm" and "\<not> pinch lm"
  shows "(avgDist lm < 0.25 \<longrightarrow>
            detect True currentMode (lm # hands) = Inr (signal currentMode TREE) \<and>
            frame_mode True currentMode (lm # hands) = Inr TREE) \<and>
         (avgDist lm > 0.4 \<longrightarrow>
            detect True currentMode (lm # hands) = Inr (signal currentMode SCATTER) \<and>
            frame_mode True currentMode (lm # hands) = Inr SCATTER) \<and>
         (0.25 \<le> avgDist lm \<and> avgDist lm \<le> 0.4 \<longrightarrow>
            detect True currentMode (lm # hands) = Inr [] \<and>
            frame_mode True currentMode (lm # hands) = Inr currentMode)"
  using assms
  by (simp add: frame_mode_hand detect_hand gestures_def setMode_signal) (simp add: setMode_def)

text \<open>The three sample values of C4: 0.20 gives TREE, 0.30 nothing, 0.45 SCATTER.\<close>

theorem fist_open_test_witness:
  "21 \<le> length (sample_hand 0.1 0.2) \<and>
   \<not> pinch (sample_hand 0.1 0.2) \<and> avgDist (sample_hand 0.1 0.2) = 0.2 \<and>
   detect True FOCUS [sample_hand 0.1 0.2] = Inr [TREE] \<and>
   frame_mode True FOCUS [sample_hand 0.1 0.2] = Inr TREE \<and>
   \<not> pinch (sample_hand 0.1 0.3) \<and> avgDist (sample_hand 0.1 0.3) = 0.3 \<and>
   detect True FOCUS [sample_hand 0.1 0.3] = Inr [] \<and>
   frame_mode True FOCUS [sample_hand 0.1 0.3] = Inr FOCUS \<and>
   \<not> pinch (sample_hand 0.1 0.45) \<and> avgDist (sample_hand 0.1 0.45) = 0.45 \<and>
   detect True FOCUS [sample_hand 0.1 0.45] = Inr [SCATTER] \<and>
   frame_mode True FOCUS [sample_hand 0.1 0.45] = Inr SCATTER"
  using fist_open_test [of "sample_hand 0.1 0.2" FOCUS "[]"]
    fist_open_test [of "sample_hand 0.1 0.3" FOCUS "[]"]
    fist_open_test [of "sample_hand 0.1 0.45" FOCUS "[]"]
  by (simp add: length_sample_hand pinch_sample_hand avgDist_sample_hand signal_def)

text \<open>
  C5. A signal \<open>s\<close> applied in mode \<open>m\<close> leaves the mode at \<open>s\<close>; applied again, it makes
  no \<^verbatim>\<open>setMode\<close> call and the mode stays what the first application made it. For the
  frames of the source: a hand sample that triggers at most one of the two tests, seen
  in two frames in a row, makes no \<^verbatim>\<open>setMode\<close> call in the second frame.
\<close>

theorem signal_idempotent:
  "setMode (setMode m (signal m s)) (signal (setMode m (signal m s)) s) = setMode m (signal m s) \<and>
   signal (setMode m (signal m s)) s = [] \<and>
   setMode m (signal m s) = s \<and>
   (21 \<le> length lm \<and> \<not> (pinch lm \<and> (avgDist lm < 0.25 \<or> avgDist lm > 0.4)) \<longrightarrow>
      (\<exists>m'. frame_mode True m (lm # hands) = Inr m' \<and>
            detect True m' (lm # hands) = Inr [] \<and>
            frame_mode True m' (lm # hands) = Inr m'))"
proof -
  have one: "signal (setMode m (signal m s)) s = []" for s
    by (simp add: setMode_signal) (simp add: signal_def)
  have frames: "\<exists>m'. frame_mode True m (lm # hands) = Inr m' \<and>
            detect True m' (lm # hands) = Inr [] \<and>
            frame_mode True m' (lm # hands) = Inr m'"
    if len: "21 \<le> length lm"
      and "\<not> (pinch lm \<and> (avgDist lm < 0.25 \<or> avgDist lm > 0.4))"
  proof -
    define m' where "m' = setMode m (gestures m lm)"
    have g: "gestures m' lm = []"
      using that(2) one [of FOCUS] one [of TREE] one [of SCATTER]
      by (auto simp add: m'_def gestures_def setMode_def)
    then have "setMode m' (gestures m' lm) = m'"
      by (simp add: setMode_def)
    then show ?thesis
      using g len by (simp add: frame_mode_hand detect_hand m'_def)
  qed
  show ?thesis
    using one [of s] frames by (simp add: setMode_signal) (simp add: setMode_def)
qed

theorem signal_idempotent_witness:
  "21 \<le> length (sample_hand 0.1 0.45) \<and>
   \<not> (pinch (sample_hand 0.1 0.45) \<and>
       (avgDist (sample_hand 0.1 0.45) < 0.25 \<or> avgDist (sample_hand 0.1 0.45) > 0.4)) \<and>
   setMode TREE (signal TREE SCATTER) = SCATTER \<and>
   signal (setMode TREE (signal TREE SCATTER)) SCATTER = [] \<and>
   frame_mode True TREE [sample_hand 0.1 0.45] = Inr SCATTER \<and>
   detect True SCATTER [sample_hand 0.1 0.45] = Inr [] \<and>
   frame_mode True SCATTER [sample_hand 0.1 0.45] = Inr SCATTER"
  using signal_idempotent [of TREE SCATTER "sample_hand 0.1 0.45" "[]"]
  by (simp add: length_sample_hand pinch_sample_hand avgDist_sample_hand frame_mode_hand
      detect_hand gestures_def signal_def setMode_def)

section \<open>Target positions\<close>

lemma clamp_shell_zero3: "clamp_shell zero3 = zero3"
  by (simp add: clamp_shell_def vlength_zero3 setLength_zero3)


lemma onTextureLoaded_particles:
  "particles (onTextureLoaded rnd t s) = particles s @
     [\<lparr>mesh = \<lparr>mesh_id = length (mainGroup s), shape = PhotoFrame t, position = zero3\<rparr>,
      velocity = multiplyScalar
         \<lparr>vx = rnd (draws s) - 0.5, vy = rnd (draws s + 1) - 0.5, vz = rnd (draws s + 2) - 0.5\<rparr>
         0.05,
      ptype = PHOTO, initialPos = zero3\<rparr>]"
  by (simp add: onTextureLoaded_def Let_def)

lemma onTextureLoaded_last:
  "last (particles (onTextureLoaded rnd t s)) =
     \<lparr>mesh = \<lparr>mesh_id = length (mainGroup s), shape = PhotoFrame t, position = zero3\<rparr>,
      velocity = multiplyScalar
         \<lparr>vx = rnd (draws s) - 0.5, vy = rnd (draws s + 1) - 0.5, vz = rnd (draws s + 2) - 0.5\<rparr>
         0.05,
      ptype = PHOTO, initialPos = zero3\<rparr>"
  by (simp add: onTextureLoaded_particles)

lemma scatter_drift_origin:
  "initialPos p = zero3 \<Longrightarrow> sin (time * 0.001) = 0 \<Longrightarrow> scatter_drift p time = zero3"
  by (simp add: scatter_drift_def addScaledVector_def zero3_def)






lemma tree_radius_nonneg:
  assumes "i \<le> n"
  shows "0 \<le> tree_radius i n"
proof -
  have "real i / real n \<le> 1"
    using assms by (cases "n = 0") (simp_all add: divide_le_eq_1)
  then show ?thesis
    by (simp add: tree_radius_def Let_def)
qed

lemma horizontal_radius_tree_target:
  "horizontal_radius (tree_target i n) = \<bar>tree_radius i n\<bar>"
proof -
  define a where "a = real i / real n * 50 * pi"
  define r where "r = tree_radius i n"
  have "cos a * r * (cos a * r) + sin a * r * (sin a * r)
        = (r * r) * (cos a * cos a + sin a * sin a)"
    by (simp only: algebra_simps)
  also have "\<dots> = r * r"
    by (simp only: sin_cos_squared_add3 mult_1_right)
  finally show ?thesis
    by (simp add: horizontal_radius_def tree_target_def Let_def a_def r_def)
qed

text \<open>
  C3. For a particle count above 0 and indices \<open>i \<le> j\<close> below it, the TREE radius
  \<open>15 * (1 - i / particleCount)\<close> at \<open>i\<close> is at least the radius at \<open>j\<close>, and so is the
  distance of the TREE target position from the axis of the cone.
\<close>

theorem tree_radius_mono:
  assumes "0 < particleCount" and "i \<le> j" and "j < particleCount"
  shows "tree_radius j particleCount \<le> tree_radius i particleCount \<and>
         horizontal_radius (targetPos TREE focusTarget time particleCount j q)
           \<le> horizontal_radius (targetPos TREE focusTarget time particleCount i p)"
proof -
  have "real i / real particleCount \<le> real j / real particleCount"
    using assms by (simp add: divide_right_mono)
  then have m: "tree_radius j particleCount \<le> tree_radius i particleCount"
    by (simp add: tree_radius_def Let_def)
  have "0 \<le> tree_radius j particleCount" "0 \<le> tree_radius i particleCount"
    using assms by (simp_all add: tree_radius_nonneg)
  then show ?thesis
    using m by (simp add: targetPos_def horizontal_radius_tree_target)
qed

theorem tree_radius_mono_witness:
  "(0::nat) < 4 \<and> (1::nat) \<le> 3 \<and> (3::nat) < 4 \<and>
   tree_radius 3 4 \<le> tree_radius 1 4 \<and>
   horizontal_radius (targetPos TREE None 0 4 3 (last (particles two_particles)))
     \<le> horizontal_radius (targetPos TREE None 0 4 1 (hd (particles two_particles))) \<and>
   tree_radius 3 4 = 15 / 4 \<and> tree_radius 1 4 = 45 / 4"
  using tree_radius_mono [of 4 1 3 None 0 "last (particles two_particles)"
      "hd (particles two_particles)"]
  by (simp add: tree_radius_def)

section \<open>Particle store\<close>

lemma addParticle_particles:
  "\<exists>p. particles (addParticle rnd ty texture s) = particles s @ [p] \<and> ptype p = ty \<and>
       initialPos p = position (mesh p)"
  by (simp add: addParticle_def Let_def split: prod.split)

lemma addParticle_types:
  "map ptype (particles (addParticle rnd ty texture s)) = map ptype (particles s) @ [ty]"
  using addParticle_particles [of rnd ty texture s] by auto

lemma repeat_addParticle_types:
  "map ptype (particles (repeat n (addParticle rnd ty texture) s)) =
     map ptype (particles s) @ replicate n ty"
proof (induction n arbitrary: s)
  case 0
  show ?case by simp
next
  case (Suc n)
  show ?case
    by (simp add: Suc.IH addParticle_types replicate_app_Cons_same)
qed

lemma two_particles_eq:
  "particles two_particles =
     [\<lparr>mesh = \<lparr>mesh_id = 0, shape = DustCube, position = \<lparr>vx = -25, vy = -25, vz = -25\<rparr>\<rparr>,
       velocity = \<lparr>vx = -0.025, vy = -0.025, vz = -0.025\<rparr>, ptype = DUST,
       initialPos = \<lparr>vx = -25, vy = -25, vz = -25\<rparr>\<rparr>,
      \<lparr>mesh = \<lparr>mesh_id = 1, shape = PhotoFrame ''photo'',
                position = \<lparr>vx = -25, vy = -25, vz = -25\<rparr>\<rparr>,
       velocity = \<lparr>vx = -0.025, vy = -0.025, vz = -0.025\<rparr>, ptype = PHOTO,
       initialPos = \<lparr>vx = -25, vy = -25, vz = -25\<rparr>\<rparr>]"
  by (simp add: two_particles_def addParticle_def Let_def empty_scene_def zero_source_def
      multiplyScalar_def)

text \<open>
  C6. The first effect, run with the container present, fills the empty store with 1500
  DECORATION particles, then 2500 DUST particles, then one PHOTO particle: 4001 in all.
\<close>

theorem initial_population:
  "map ptype (particles (initThree True rnd)) =
     replicate 1500 DECORATION @ replicate 2500 DUST @ [PHOTO] \<and>
   length (particles (initThree True rnd)) = 4001"
proof -
  have t: "map ptype (particles (initThree True rnd)) =
     replicate 1500 DECORATION @ replicate 2500 DUST @ [PHOTO]"
    by (simp add: initThree_def createParticles_def addParticle_types repeat_addParticle_types
        empty_scene_def)
  have "length (particles (initThree True rnd)) = length (map ptype (particles (initThree True rnd)))"
    by simp
  also have "\<dots> = 4001"
    by (simp only: t) simp
  finally show ?thesis
    using t by simp
qed

text \<open>
  C7. Adding a PHOTO particle, by \<^verbatim>\<open>addParticle('PHOTO', texture)\<close> or by the new-photo
  effect once the texture of a non-empty URL has loaded, makes the store one longer,
  keeps the particles it held as its prefix, and the added particle, the last one, is
  among the particles of type PHOTO.
\<close>

theorem add_photo_appends:
  assumes "url \<noteq> []" and "load url = Some t"
  shows
  "length (particles (addParticle rnd PHOTO texture s)) = length (particles s) + 1 \<and>
   take (length (particles s)) (particles (addParticle rnd PHOTO texture s)) = particles s \<and>
   last (particles (addParticle rnd PHOTO texture s))
     \<in> set (filter (\<lambda>p. ptype p = PHOTO) (particles (addParticle rnd PHOTO texture s))) \<and>
   length (particles (handleNewPhoto rnd load (Some url) s)) = length (particles s) + 1 \<and>
   take (length (particles s)) (particles (handleNewPhoto rnd load (Some url) s)) = particles s \<and>
   last (particles (handleNewPhoto rnd load (Some url) s))
     \<in> set (filter (\<lambda>p. ptype p = PHOTO) (particles (handleNewPhoto rnd load (Some url) s)))"
proof -
  obtain p where p: "particles (addParticle rnd PHOTO texture s) = particles s @ [p]"
    "ptype p = PHOTO"
    using addParticle_particles [of rnd PHOTO texture s] by blast
  have "handleNewPhoto rnd load (Some url) s = onTextureLoaded rnd t s"
    using assms by (simp add: handleNewPhoto_def)
  then show ?thesis
    by (simp add: p onTextureLoaded_particles)
qed

theorem add_photo_appends_witness:
  "''photo.png'' \<noteq> [] \<and> Some ''photo.png'' = Some ''photo.png'' \<and>
   length (particles two_particles) = 2 \<and>
   length (particles (handleNewPhoto zero_source Some (Some ''photo.png'') two_particles)) = 3 \<and>
   take 2 (particles (handleNewPhoto zero_source Some (Some ''photo.png'') two_particles))
     = particles two_particles \<and>
   last (particles (handleNewPhoto zero_source Some (Some ''photo.png'') two_particles))
     \<in> set (filter (\<lambda>p. ptype p = PHOTO)
         (particles (handleNewPhoto zero_source Some (Some ''photo.png'') two_particles))) \<and>
   length (particles (addParticle zero_source PHOTO (Some ''tex'') two_particles)) = 3"
proof -
  have n: "length (particles two_particles) = 2"
    by (simp add: two_particles_eq)
  show ?thesis
    using add_photo_appends [of "''photo.png''" Some "''photo.png''" zero_source "Some ''tex''"
        two_particles]
    by (simp add: n)
qed

section \<open>Focus target\<close>

lemma select_focus_not_FOCUS:
  "currentMode \<noteq> FOCUS \<Longrightarrow> select_focus currentMode focusTarget ps r = Inr None"
  by (simp add: select_focus_def)

lemma floor_index:
  assumes "0 \<le> r" and "r < 1" and "0 < n"
  shows "0 \<le> \<lfloor>r * real n\<rfloor> \<and> \<lfloor>r * real n\<rfloor> < int n"
proof -
  have "0 \<le> r * real n"
    using assms by simp
  then have lo: "0 \<le> \<lfloor>r * real n\<rfloor>"
    by simp
  have "r * real n < real n"
    using assms by simp
  then have "\<lfloor>r * real n\<rfloor> < int n"
    by (simp add: floor_less_iff)
  with lo show ?thesis by simp
qed

lemma select_focus_picks:
  assumes "0 \<le> r" and "r < 1" and "filter (\<lambda>p. ptype p = PHOTO) ps \<noteq> []"
  shows "\<exists>p. p \<in> set ps \<and> ptype p = PHOTO \<and>
             select_focus FOCUS None ps r = Inr (Some (mesh_id (mesh p)))"
proof -
  define photos where "photos = filter (\<lambda>p. ptype p = PHOTO) ps"
  define j where "j = \<lfloor>r * real (length photos)\<rfloor>"
  have n: "0 < length photos"
    using assms(3) by (simp add: photos_def)
  have j: "0 \<le> j \<and> j < int (length photos)"
    unfolding j_def using floor_index [OF assms(1,2) n] .
  then have "nat j < length photos"
    by linarith
  then have "photos ! nat j \<in> set photos"
    by simp
  then have mem: "photos ! nat j \<in> set ps \<and> ptype (photos ! nat j) = PHOTO"
    by (simp add: photos_def)
  have "select_focus FOCUS None ps r = Inr (Some (mesh_id (mesh (photos ! nat j))))"
    using n j by (simp add: select_focus_def Let_def photos_def [symmetric] j_def [symmetric])
  with mem show ?thesis by blast
qed

lemma select_focus_no_photo:
  assumes "filter (\<lambda>p. ptype p = PHOTO) ps = []"
  shows "select_focus FOCUS None ps r = Inr None"
  using assms by (simp add: select_focus_def Let_def)

text \<open>
  C8. A frame whose mode is not FOCUS ends with the focus target null, so a frame that
  ends with a target has mode FOCUS. A frame in FOCUS that starts without a target ends
  with the mesh of one of the PHOTO particles as its target when the store holds a PHOTO
  particle (\<open>r\<close>, the random draw, lies in [0, 1)), and with no target and no error when
  the store holds none; every particle of a FOCUS frame without target heads for 1.5
  times its \<^verbatim>\<open>initialPos\<close>.
\<close>

theorem focus_target_invariant:
  "(currentMode \<noteq> FOCUS \<longrightarrow> select_focus currentMode focusTarget ps r = Inr None) \<and>
   (select_focus currentMode focusTarget ps r = Inr (Some m) \<longrightarrow> currentMode = FOCUS) \<and>
   (0 \<le> r \<and> r < 1 \<and> filter (\<lambda>p. ptype p = PHOTO) ps \<noteq> [] \<longrightarrow>
      (\<exists>p. p \<in> set ps \<and> ptype p = PHOTO \<and>
           select_focus FOCUS None ps r = Inr (Some (mesh_id (mesh p))))) \<and>
   (filter (\<lambda>p. ptype p = PHOTO) ps = [] \<longrightarrow> select_focus FOCUS None ps r = Inr None) \<and>
   targetPos FOCUS None time particleCount i q = multiplyScalar (initialPos q) 1.5"
proof -
  have "currentMode = FOCUS" if "select_focus currentMode focusTarget ps r = Inr (Some m)"
  proof (rule ccontr)
    assume "currentMode \<noteq> FOCUS"
    then have "select_focus currentMode focusTarget ps r = Inr None"
      by (rule select_focus_not_FOCUS)
    with that show False by simp
  qed
  then show ?thesis
    using select_focus_picks [of r ps] select_focus_no_photo [of ps r]
    by (simp add: select_focus_not_FOCUS targetPos_def focus_target_def)
qed

theorem focus_target_invariant_witness:
  "TREE \<noteq> FOCUS \<and>
   select_focus TREE (Some 1) (particles two_particles) (1 / 2) = Inr None \<and>
   (0::real) \<le> 1 / 2 \<and> (1 / 2 :: real) < 1 \<and>
   filter (\<lambda>p. ptype p = PHOTO) (particles two_particles) \<noteq> [] \<and>
   select_focus FOCUS None (particles two_particles) (1 / 2) = Inr (Some 1) \<and>
   filter (\<lambda>p. ptype p = PHOTO) (particles empty_scene) = [] \<and>
   select_focus FOCUS None (particles empty_scene) (1 / 2) = Inr None"
  using focus_target_invariant [of TREE "Some 1" "particles two_particles" "1 / 2" 1 0 0 0
      "hd (particles two_particles)"]
    focus_target_invariant [of FOCUS None "particles empty_scene" "1 / 2" 1 0 0 0
      "hd (particles two_particles)"]
  by (simp add: two_particles_eq select_focus_def empty_scene_def)

section \<open>Image generation\<close>

lemma first_image_find:
  "first_image ps =
     (case find (\<lambda>part. inlineData part \<noteq> None) ps of
        None \<Rightarrow> None
      | Some part \<Rightarrow> Some (data_url (the (inlineData part))))"
  by (induction ps) (auto split: option.splits)

lemma first_image_None:
  "first_image ps = None \<longleftrightarrow> list_all (\<lambda>part. inlineData part = None) ps"
  by (induction ps) (auto split: option.splits)

lemma response_parts_malformed:
  "candidates response = None \<or> candidates response = Some [] \<or>
   (\<exists>c cs. candidates response = Some (c # cs) \<and>
      (content c = None \<or>
       (\<exists>ct. content c = Some ct \<and> (parts ct = None \<or> parts ct = Some []))))
   \<Longrightarrow> response_parts response = []"
  by (auto simp add: response_parts_def)

text \<open>
  C9 (as the code has it). \<^verbatim>\<open>generateChristmasImage\<close> reads the parts of the first candidate
  only. When the external call resolves, it returns \<^verbatim>\<open>data:image/png;base64,\<close> followed by
  the data of the first of these parts that has an \<^verbatim>\<open>inlineData\<close> field, and throws a
  plain \<^verbatim>\<open>Error("No image generated.")\<close> when none has one: it fails exactly when no part of
  the first candidate has \<^verbatim>\<open>inlineData\<close>. A response without candidates, with an empty
  candidate list, or whose first candidate has no content, no parts or an empty part
  list, fails with this error. When the call rejects, its error is rethrown.
\<close>

theorem generate_reads_first_candidate:
  "generateChristmasImage api prompt imageSize =
     (case api prompt imageSize of
        Inl e \<Rightarrow> Inl e
      | Inr response \<Rightarrow>
          (case find (\<lambda>part. inlineData part \<noteq> None) (response_parts response) of
             Some part \<Rightarrow> Inr (data_url (the (inlineData part)))
           | None \<Rightarrow> Inl (Error ''No image generated.'')))
   \<and> (api prompt imageSize = Inr response \<longrightarrow>
        (isl (generateChristmasImage api prompt imageSize) \<longleftrightarrow>
           list_all (\<lambda>part. inlineData part = None) (response_parts response)))
   \<and> (api prompt imageSize = Inr response \<and>
        (candidates response = None \<or> candidates response = Some [] \<or>
         (\<exists>c cs. candidates response = Some (c # cs) \<and>
            (content c = None \<or>
             (\<exists>ct. content c = Some ct \<and> (parts ct = None \<or> parts ct = Some [])))))
        \<longrightarrow> generateChristmasImage api prompt imageSize = Inl (Error ''No image generated.''))"
proof -
  have a: "generateChristmasImage api prompt imageSize =
     (case api prompt imageSize of
        Inl e \<Rightarrow> Inl e
      | Inr response \<Rightarrow>
          (case find (\<lambda>part. inlineData part \<noteq> None) (response_parts response) of
             Some part \<Rightarrow> Inr (data_url (the (inlineData part)))
           | None \<Rightarrow> Inl (Error ''No image generated.'')))"
    by (simp add: generateChristmasImage_def first_image_find split: sum.splits option.splits)
  have b: "isl (generateChristmasImage api prompt imageSize) \<longleftrightarrow>
           list_all (\<lambda>part. inlineData part = None) (response_parts response)"
    if "api prompt imageSize = Inr response"
    using that first_image_None [of "response_parts response"]
    by (auto simp add: generateChristmasImage_def split: option.splits)
  have c: "generateChristmasImage api prompt imageSize = Inl (Error ''No image generated.'')"
    if "api prompt imageSize = Inr response"
      and "candidates response = None \<or> candidates response = Some [] \<or>
         (\<exists>c cs. candidates response = Some (c # cs) \<and>
            (content c = None \<or>
             (\<exists>ct. content c = Some ct \<and> (parts ct = None \<or> parts ct = Some []))))"
  proof -
    have "response_parts response = []"
      using that(2) by (rule response_parts_malformed)
    then show ?thesis
      using that(1) by (simp add: generateChristmasImage_def)
  qed
  show ?thesis
    using a b c by blast
qed

theorem generate_reads_first_candidate_witness:
  "resolves_with image_response ''a tree'' Size1K = Inr image_response \<and>
   generateChristmasImage (resolves_with image_response) ''a tree'' Size1K
     = Inr ''data:image/png;base64,AAAA'' \<and>
   \<not> list_all (\<lambda>part. inlineData part = None) (response_parts image_response) \<and>
   candidates empty_response = None \<and>
   generateChristmasImage (resolves_with empty_response) ''a tree'' Size1K
     = Inl (Error ''No image generated.'') \<and>
   candidates no_content_response = Some [\<lparr>content = None\<rparr>] \<and>
   generateChristmasImage (resolves_with no_content_response) ''a tree'' Size1K
     = Inl (Error ''No image generated.'') \<and>
   generateChristmasImage (rejects_with (Error ''network'')) ''a tree'' Size1K
     = Inl (Error ''network'')"
  using generate_reads_first_candidate [of "resolves_with image_response" "''a tree''" Size1K
      image_response]
    generate_reads_first_candidate [of "resolves_with empty_response" "''a tree''" Size1K
      empty_response]
    generate_reads_first_candidate [of "resolves_with no_content_response" "''a tree''" Size1K
      no_content_response]
    generate_reads_first_candidate [of "rejects_with (Error ''network'')" "''a tree''" Size1K
      empty_response]
  by (simp add: resolves_with_def rejects_with_def response_parts_def image_response_def
      empty_response_def no_content_response_def data_url_def)

text \<open>
  C9 as stated fails in both directions. A response whose only image part is in the
  second candidate contains an image part, and the call fails; a response whose part has
  \<^verbatim>\<open>inlineData\<close> without \<^verbatim>\<open>data\<close> contains no part that carries image data, and the call
  returns \<^verbatim>\<open>data:image/png;base64,undefined\<close>.
\<close>

theorem image_part_counterexample:
  "contains_image_part second_candidate_response \<and>
   generateChristmasImage (resolves_with second_candidate_response) ''a tree'' Size1K
     = Inl (Error ''No image generated.'') \<and>
   \<not> contains_image_part no_data_response \<and>
   generateChristmasImage (resolves_with no_data_response) ''a tree'' Size1K
     = Inr ''data:image/png;base64,undefined''"
  by (simp add: contains_image_part_def all_parts_def carries_image_data_def
      second_candidate_response_def no_data_response_def generateChristmasImage_def
      resolves_with_def response_parts_def data_url_def)

section \<open>Photos added after startup\<close>

text \<open>
  C10 (as the code has it). A PHOTO particle added by the new-photo effect has its mesh
  at (0, 0, 0) and \<^verbatim>\<open>initialPos\<close> = (0, 0, 0), while \<^verbatim>\<open>addParticle\<close> gives every particle a
  position drawn at random. In SCATTER mode, at a time with \<open>sin (time * 0.001) = 0\<close>, the
  drift of such a photo is the zero vector. Its length 0 is below 8, so \<^verbatim>\<open>setLength(8)\<close>
  runs; it divides by 1, not by the zero length, and leaves the zero vector, which is
  the frame's target.
\<close>

theorem new_photo_anchor_origin:
  assumes "url \<noteq> []" and "load url = Some t"
    and "p = last (particles (handleNewPhoto rnd load (Some url) s))"
  shows "ptype p = PHOTO \<and> position (mesh p) = zero3 \<and> initialPos p = zero3 \<and>
         (sin (time * 0.001) = 0 \<longrightarrow>
            scatter_drift p time = zero3 \<and>
            vlength (scatter_drift p time) < 8 \<and>
            normalize_divisor (scatter_drift p time) = 1 \<and>
            setLength (scatter_drift p time) 8 = zero3 \<and>
            scatter_target p time = zero3) \<and>
         (\<exists>k. initialPos (last (particles (addParticle rnd ty texture s))) =
              \<lparr>vx = (rnd k - 0.5) * 50, vy = (rnd (k + 1) - 0.5) * 50,
               vz = (rnd (k + 2) - 0.5) * 50\<rparr>)"
proof -
  have p: "p = last (particles (onTextureLoaded rnd t s))"
    using assms by (simp add: handleNewPhoto_def)
  have a: "ptype p = PHOTO \<and> position (mesh p) = zero3 \<and> initialPos p = zero3"
    by (simp add: p onTextureLoaded_last)
  have b: "scatter_drift p time = zero3 \<and>
            vlength (scatter_drift p time) < 8 \<and>
            normalize_divisor (scatter_drift p time) = 1 \<and>
            setLength (scatter_drift p time) 8 = zero3 \<and>
            scatter_target p time = zero3" if "sin (time * 0.001) = 0"
  proof -
    have "scatter_drift p time = zero3"
      using a that by (simp add: scatter_drift_origin)
    then show ?thesis
      by (simp add: scatter_target_def clamp_shell_zero3 vlength_zero3 setLength_zero3
          normalize_divisor_def)
  qed
  have c: "\<exists>k. initialPos (last (particles (addParticle rnd ty texture s))) =
              \<lparr>vx = (rnd k - 0.5) * 50, vy = (rnd (k + 1) - 0.5) * 50,
               vz = (rnd (k + 2) - 0.5) * 50\<rparr>"
    by (simp add: addParticle_def Let_def split: prod.split) blast
  show ?thesis
    using a b c by blast
qed

theorem new_photo_anchor_origin_witness:
  "''photo.png'' \<noteq> [] \<and> Some ''photo.png'' = Some ''photo.png'' \<and>
   sin (0 * 0.001 :: real) = 0 \<and>
   initialPos (last (particles (handleNewPhoto zero_source Some (Some ''photo.png'') empty_scene)))
     = zero3 \<and>
   normalize_divisor (scatter_drift
     (last (particles (handleNewPhoto zero_source Some (Some ''photo.png'') empty_scene))) 0) = 1 \<and>
   scatter_target
     (last (particles (handleNewPhoto zero_source Some (Some ''photo.png'') empty_scene))) 0
     = zero3"
  using new_photo_anchor_origin [of "''photo.png''" Some "''photo.png''"
      "last (particles (handleNewPhoto zero_source Some (Some ''photo.png'') empty_scene))"
      zero_source empty_scene 0 DUST None]
  by (simp add: normalize_divisor_def vlength_zero3)

text \<open>
  C10 as stated fails in its last part: for the photo added first to the empty store,
  at time 0, the drift has length 0 and the rescaling step divides by 1.
\<close>

theorem rescale_divides_by_one_counterexample:
  "vlength (scatter_drift
      (last (particles (handleNewPhoto zero_source Some (Some ''photo.png'') empty_scene))) 0) = 0 \<and>
   normalize_divisor (scatter_drift
      (last (particles (handleNewPhoto zero_source Some (Some ''photo.png'') empty_scene))) 0) = 1 \<and>
   normalize_divisor (scatter_drift
      (last (particles (handleNewPhoto zero_source Some (Some ''photo.png'') empty_scene))) 0) \<noteq> 0"
  by (simp add: handleNewPhoto_def onTextureLoaded_last scatter_drift_origin vlength_zero3
      normalize_divisor_def)

end
